theory Spec2Isabelle
  imports Main
begin

section \<open>Python strings\<close>

text \<open>
  A Python \<open>str\<close> is modelled as a \<open>string\<close> holding its UTF-8 bytes. Every literal the
  two scripts search for is ASCII, and UTF-8 is self-synchronising, so searching and
  replacing an ASCII substring on the bytes agrees with Python's search on code points.
\<close>

definition startswith :: "string \<Rightarrow> string \<Rightarrow> bool" where
  "startswith s p = (take (length p) s = p)"

definition endswith :: "string \<Rightarrow> string \<Rightarrow> bool" where
  "endswith s p = (length p \<le> length s \<and> drop (length s - length p) s = p)"

text \<open>\<open>sub in s\<close>: some suffix of \<open>s\<close> starts with \<open>sub\<close>.\<close>

fun contains :: "string \<Rightarrow> string \<Rightarrow> bool" where
  "contains [] sub = (sub = [])"
| "contains (c # cs) sub = (startswith (c # cs) sub \<or> contains cs sub)"

text \<open>
  \<open>s.replace(old, new)\<close> with no count: every non-overlapping occurrence of \<open>old\<close> is
  replaced, scanning from the left. For an empty \<open>old\<close> Python puts \<open>new\<close> before every
  character and at the end.
\<close>

function replace :: "string \<Rightarrow> string \<Rightarrow> string \<Rightarrow> string" where
  "replace [] old new = (if old = [] then new else [])"
| "replace (c # cs) old new =
     (if old = [] then new @ c # replace cs old new
      else if startswith (c # cs) old then new @ replace (drop (length old) (c # cs)) old new
      else c # replace cs old new)"
  by pat_completeness auto
termination
  by (relation "measure (\<lambda>(s, old, new). length s)") (auto simp: neq_Nil_conv)

declare replace.simps(2) [simp del]

text \<open>
  \<open>s.replace(old, new, 1)\<close>: only the leftmost occurrence is replaced. The scripts never
  call it; it states the "first occurrence" reading of the specification.
\<close>

fun replace_first :: "string \<Rightarrow> string \<Rightarrow> string \<Rightarrow> string" where
  "replace_first [] old new = (if old = [] then new else [])"
| "replace_first (c # cs) old new =
     (if startswith (c # cs) old then new @ drop (length old) (c # cs)
      else c # replace_first cs old new)"

text \<open>\<open>str(n)\<close> for a non-negative integer, and for any integer.\<close>

fun str_nat :: "nat \<Rightarrow> string" where
  "str_nat n =
     (if n < 10 then [''0123456789'' ! n]
      else str_nat (n div 10) @ [''0123456789'' ! (n mod 10)])"

declare str_nat.simps [simp del]

definition str_int :: "int \<Rightarrow> string" where
  "str_int i = (if i < 0 then ''-'' @ str_nat (nat (- i)) else str_nat (nat i))"

section \<open>Exceptions\<close>

text \<open>
  \<open>Exception m\<close> is an instance of Python's class \<open>Exception\<close> (or of a subclass) whose
  \<open>str()\<close> is \<open>m\<close>. A call that can raise returns \<open>exn + 'a\<close>, with \<open>Inl\<close> for the raise.
  Signals delivered from outside (\<open>KeyboardInterrupt\<close>) are modelled only where a script
  handles them, in the server's serve loop.
\<close>

datatype exn = Exception string

definition and_then :: "exn + 'a \<Rightarrow> ('a \<Rightarrow> exn + 'b) \<Rightarrow> exn + 'b" where
  "and_then r k = (case r of Inl e \<Rightarrow> Inl e | Inr x \<Rightarrow> k x)"

text \<open>\<open>xs[i]\<close> on a tuple, for \<open>i \<ge> 0\<close>: out of range raises \<open>IndexError\<close>.\<close>

definition tuple_index :: "'a list \<Rightarrow> nat \<Rightarrow> exn + 'a" where
  "tuple_index xs i =
     (if i < length xs then Inr (xs ! i) else Inl (Exception ''tuple index out of range''))"

section \<open>convert\_svg\_to\_jpg.py\<close>

subsection \<open>The libraries the script calls\<close>

text \<open>
  \<open>os\<close>, \<open>cairosvg\<close> and \<open>PIL\<close> are not part of the repository: their functions are
  parameters of the model, collected in one record, and every one that can raise returns
  a sum. \<open>'img\<close> is the type of PIL images. \<open>image_paste base im mask\<close> is
  \<open>base.paste(im, mask=mask)\<close> and returns the canvas it has updated in place;
  \<open>image_save im fp format quality optimize\<close> is \<open>im.save(fp, format, quality=..,
  optimize=..)\<close> and returns the exception it raises, if any. \<open>getpixel\<close> is PIL's
  \<open>Image.getpixel\<close>, the band values of one pixel; the script does not call it, the
  statements about pixels do.
\<close>

record 'img lib =
  os_listdir :: "string \<Rightarrow> exn + string list"
  svg2png :: "string \<Rightarrow> exn + string"
  Image_open :: "string \<Rightarrow> exn + 'img"
  image_mode :: "'img \<Rightarrow> string"
  image_size :: "'img \<Rightarrow> nat \<times> nat"
  Image_new :: "string \<Rightarrow> nat \<times> nat \<Rightarrow> nat \<times> nat \<times> nat \<Rightarrow> exn + 'img"
  image_split :: "'img \<Rightarrow> exn + 'img list"
  image_paste :: "'img \<Rightarrow> 'img \<Rightarrow> 'img \<Rightarrow> exn + 'img"
  image_convert :: "'img \<Rightarrow> string \<Rightarrow> exn + 'img"
  image_save :: "'img \<Rightarrow> string \<Rightarrow> string \<Rightarrow> nat \<Rightarrow> bool \<Rightarrow> exn option"
  getpixel :: "'img \<Rightarrow> nat \<times> nat \<Rightarrow> nat list"

text \<open>
  What a run does to the outside, in order: a \<open>print\<close> call with its argument (the
  terminating newline that \<open>print\<close> adds is not part of it), a call of
  \<open>cairosvg.svg2png(url=f)\<close>, which reads the file \<open>f\<close>, and a call of \<open>image.save\<close>, which
  writes a file. \<open>print\<close> itself is taken not to fail.
\<close>

datatype 'img event =
  Print string
| Svg2png string
| Save 'img string string nat bool

subsection \<open>convert\_svg\_to\_jpg\<close>

text \<open>
  Lines 27 to 33: the colour handling between \<open>Image.open\<close> and \<open>image.save\<close>; the
  source's variable \<open>image\<close> is \<open>img\<close> here.
\<close>

definition to_rgb :: "'img lib \<Rightarrow> 'img \<Rightarrow> exn + 'img" where
  "to_rgb L img =
     (if image_mode L img = ''RGBA'' then
        and_then (Image_new L ''RGB'' (image_size L img) (255, 255, 255)) (\<lambda>rgb_image.
        and_then (image_split L img) (\<lambda>bands.
        and_then (tuple_index bands 3) (\<lambda>alpha.
        image_paste L rgb_image img alpha)))
      else if image_mode L img \<noteq> ''RGB'' then image_convert L img ''RGB''
      else Inr img)"

text \<open>Lines 22 to 33: the image handed to \<open>image.save\<close>, or the exception raised before.\<close>

definition load_rgb :: "'img lib \<Rightarrow> string \<Rightarrow> exn + 'img" where
  "load_rgb L svg_file =
     and_then (svg2png L svg_file) (\<lambda>png_data.
     and_then (Image_open L png_data) (\<lambda>img.
     to_rgb L img))"

text \<open>The two lines the function prints; the marks are U+2713 and U+2717.\<close>

definition converted_line :: "string \<Rightarrow> string \<Rightarrow> string" where
  "converted_line svg_file jpg_file =
     [CHR 0xE2, CHR 0x9C, CHR 0x93] @ '' Converted: '' @ svg_file @ '' -> '' @ jpg_file"

definition error_line :: "string \<Rightarrow> exn \<Rightarrow> string" where
  "error_line svg_file e =
     (case e of Exception m \<Rightarrow>
        [CHR 0xE2, CHR 0x9C, CHR 0x97] @ '' Error converting '' @ svg_file @ '': '' @ m)"

text \<open>
  The whole function: the \<open>try\<close> block, and the handler of \<open>except Exception as e\<close>, which
  prints and returns \<open>False\<close>. The result is the returned flag and the events.
\<close>

definition convert_svg_to_jpg ::
  "'img lib \<Rightarrow> string \<Rightarrow> string \<Rightarrow> nat \<Rightarrow> bool \<times> 'img event list" where
  "convert_svg_to_jpg L svg_file jpg_file quality =
     (case load_rgb L svg_file of
        Inl e \<Rightarrow> (False, [Svg2png svg_file, Print (error_line svg_file e)])
      | Inr img \<Rightarrow>
          (case image_save L img jpg_file ''JPEG'' quality True of
             Some e \<Rightarrow>
               (False, [Svg2png svg_file, Save img jpg_file ''JPEG'' quality True,
                        Print (error_line svg_file e)])
           | None \<Rightarrow>
               (True, [Svg2png svg_file, Save img jpg_file ''JPEG'' quality True,
                       Print (converted_line svg_file jpg_file)])))"

subsection \<open>main\<close>

text \<open>
  The \<open>for\<close> loop of lines 54 to 57, with the running \<open>success_count\<close>; the call leaves
  \<open>quality\<close> at its default 95.
\<close>

fun main_loop :: "'img lib \<Rightarrow> string list \<Rightarrow> nat \<Rightarrow> nat \<times> 'img event list" where
  "main_loop L [] success_count = (success_count, [])"
| "main_loop L (svg_file # rest) success_count =
     (let jpg_file = replace svg_file ''.svg'' ''.jpg'';
          (ok, evs) = convert_svg_to_jpg L svg_file jpg_file 95;
          (n, evs') = main_loop L rest (if ok then success_count + 1 else success_count)
      in (n, evs @ evs'))"

definition found_line :: "nat \<Rightarrow> string" where
  "found_line n = ''Found '' @ str_nat n @ '' SVG files to convert'' @ [CHR 0x0A]"

definition tally_line :: "nat \<Rightarrow> nat \<Rightarrow> string" where
  "tally_line success_count n =
     [CHR 0x0A, CHR 0xE2, CHR 0x9C, CHR 0x93] @ '' Successfully converted '' @
     str_nat success_count @ ''/'' @ str_nat n @ '' files''"

text \<open>
  \<open>main()\<close> of the converter: \<open>Inl e\<close> when \<open>os.listdir\<close> raises, which nothing catches,
  \<open>Inr ()\<close> when \<open>main\<close> returns.
\<close>

definition convert_main :: "'img lib \<Rightarrow> (exn + unit) \<times> 'img event list" where
  "convert_main L =
     (case os_listdir L ''.'' of
        Inl e \<Rightarrow> (Inl e, [])
      | Inr names \<Rightarrow>
          (let svg_files = filter (\<lambda>f. endswith f ''.svg'') names in
           if svg_files = [] then
             (Inr (), [Print ''No SVG files found in current directory''])
           else
             (let (success_count, evs) = main_loop L svg_files 0 in
              (Inr (),
               [Print (found_line (length svg_files))] @ evs @
               [Print (tally_line success_count (length svg_files))]))))"



text \<open>A coordinate inside an image of the given size.\<close>

definition inside :: "nat \<times> nat \<Rightarrow> nat \<times> nat \<Rightarrow> bool" where
  "inside sz xy = (fst xy < fst sz \<and> snd xy < snd sz)"

text \<open>
  What PIL documents of the three calls of the RGBA branch, in terms of \<open>getpixel\<close>:
  \<open>Image.new\<close> gives an image of the requested mode and size filled with the colour;
  band \<open>i\<close> of \<open>split()\<close> holds component \<open>i\<close> of every pixel; \<open>paste\<close> with a mask keeps the
  size and mode of the canvas and, where the mask is 0, its pixel.
\<close>

definition pil_contract :: "'img lib \<Rightarrow> bool" where
  "pil_contract L =
     ((\<forall>m sz r g b im. Image_new L m sz (r, g, b) = Inr im \<longrightarrow>
         image_mode L im = m \<and> image_size L im = sz \<and>
         (\<forall>xy. inside sz xy \<longrightarrow> getpixel L im xy = [r, g, b])) \<and>
      (\<forall>im bands i xy. image_split L im = Inr bands \<longrightarrow> i < length bands \<longrightarrow>
         inside (image_size L im) xy \<longrightarrow> i < length (getpixel L im xy) \<longrightarrow>
         getpixel L (bands ! i) xy = [getpixel L im xy ! i]) \<and>
      (\<forall>base im mask out. image_paste L base im mask = Inr out \<longrightarrow>
         image_mode L out = image_mode L base \<and> image_size L out = image_size L base \<and>
         (\<forall>xy. inside (image_size L base) xy \<longrightarrow> getpixel L mask xy = [0] \<longrightarrow>
            getpixel L out xy = getpixel L base xy)))"

subsection \<open>A small instance of the libraries\<close>

text \<open>
  A concrete image type and concrete library functions, on which the definitions above
  can be evaluated. A picture is its mode, its size (width, height) and its pixels row
  by row, each pixel the list of its band values.
\<close>

record picture =
  pic_mode :: string
  pic_size :: "nat \<times> nat"
  pic_data :: "nat list list"

definition pic_new :: "string \<Rightarrow> nat \<times> nat \<Rightarrow> nat \<times> nat \<times> nat \<Rightarrow> picture" where
  "pic_new m sz c =
     \<lparr>pic_mode = m, pic_size = sz,
      pic_data = replicate (fst sz * snd sz) [fst c, fst (snd c), snd (snd c)]\<rparr>"

definition pixel_at :: "picture \<Rightarrow> nat \<Rightarrow> nat list" where
  "pixel_at im i = (if i < length (pic_data im) then pic_data im ! i else [])"

definition pic_getpixel :: "picture \<Rightarrow> nat \<times> nat \<Rightarrow> nat list" where
  "pic_getpixel im xy =
     (if inside (pic_size im) xy then pixel_at im (snd xy * fst (pic_size im) + fst xy) else [])"

definition pic_band :: "picture \<Rightarrow> nat \<Rightarrow> picture" where
  "pic_band im i =
     \<lparr>pic_mode = ''L'', pic_size = pic_size im,
      pic_data = map (\<lambda>px. if i < length px then [px ! i] else []) (pic_data im)\<rparr>"

definition pic_split :: "picture \<Rightarrow> picture list" where
  "pic_split im = map (pic_band im) [0..<length (pic_mode im)]"

text \<open>
  Blending one pixel of the canvas with one of the source under a mask value; a band the
  source lacks, or a pixel the mask lacks, keeps the canvas.
\<close>

definition blend :: "nat list \<Rightarrow> nat list \<Rightarrow> nat list \<Rightarrow> nat list" where
  "blend bg fg m =
     map (\<lambda>k. if k < length fg \<and> m \<noteq> []
              then (bg ! k * (255 - hd m) + fg ! k * hd m) div 255 else bg ! k)
         [0..<length bg]"

definition pic_paste :: "picture \<Rightarrow> picture \<Rightarrow> picture \<Rightarrow> picture" where
  "pic_paste base im alpha =
     base\<lparr>pic_data :=
       map (\<lambda>i. blend (pic_data base ! i) (pixel_at im i) (pixel_at alpha i))
           [0..<length (pic_data base)]\<rparr>"

definition pic_convert :: "picture \<Rightarrow> string \<Rightarrow> picture" where
  "pic_convert im m =
     im\<lparr>pic_mode := m,
        pic_data := map (\<lambda>px. if length px = 1 then px @ px @ px else take 3 px) (pic_data im)\<rparr>"

text \<open>
  A directory with a well-formed \<open>logo.svg\<close>, a malformed \<open>broken.svg\<close> and a name that
  does not end in \<open>.svg\<close>. Every rasterised file opens as \<open>glass\<close>, an opaque RGBA pixel
  beside a fully transparent one; \<open>grey\<close> is a picture of mode \<open>L\<close>.
\<close>

definition glass :: picture where
  "glass = \<lparr>pic_mode = ''RGBA'', pic_size = (2, 1),
            pic_data = [[10, 20, 30, 255], [40, 50, 60, 0]]\<rparr>"

definition grey :: picture where
  "grey = \<lparr>pic_mode = ''L'', pic_size = (1, 1), pic_data = [[77]]\<rparr>"

definition demo_lib :: "picture lib" where
  "demo_lib =
     \<lparr>os_listdir = (\<lambda>d. Inr [''logo.svg'', ''notes.txt'', ''broken.svg'']),
      svg2png = (\<lambda>f. if f = ''broken.svg''
                      then Inl (Exception ''no element found: line 1, column 0'')
                      else Inr (''PNG:'' @ f)),
      Image_open = (\<lambda>png. Inr glass),
      image_mode = pic_mode,
      image_size = pic_size,
      Image_new = (\<lambda>m sz c. Inr (pic_new m sz c)),
      image_split = (\<lambda>im. Inr (pic_split im)),
      image_paste = (\<lambda>base im alpha.
        if pic_size im = pic_size base \<and> pic_size alpha = pic_size base
        then Inr (pic_paste base im alpha) else Inl (Exception ''images do not match'')),
      image_convert = (\<lambda>im m. Inr (pic_convert im m)),
      image_save = (\<lambda>im fp fmt quality optimize. None),
      getpixel = pic_getpixel\<rparr>"

text \<open>
  Three variations: a directory whose only file holds \<open>.svg\<close> twice in its name, a
  rasteriser that fails on every file, and a directory with no name ending in \<open>.svg\<close>.
\<close>

definition backup_lib :: "picture lib" where
  "backup_lib = demo_lib\<lparr>os_listdir := (\<lambda>d. Inr [''my.svg.backup.svg''])\<rparr>"


definition plain_lib :: "picture lib" where
  "plain_lib = demo_lib\<lparr>os_listdir := (\<lambda>d. Inr [''notes.txt'', ''drawing.svg.bak''])\<rparr>"

section \<open>serve\_animation.py\<close>

subsection \<open>The request handler\<close>

text \<open>
  A handler object, as far as the script touches it: \<open>self.path\<close>, which \<open>do_GET\<close> reads
  and writes, and \<open>self.command\<close>, the request method by which \<open>http.server\<close> picks the
  method \<open>do_<command>\<close> to call. Whatever else the library keeps in the object (buffers,
  the socket files) is the extension of the record.
\<close>

record handler =
  command :: string
  path :: string

type_synonym header = "string \<times> string"

text \<open>
  The methods that class \<open>Handler\<close> inherits are library code and are parameters.
  \<open>send_header\<close> and the inherited \<open>end_headers\<close> change the handler. A request method of
  the library (\<open>do_GET\<close>, \<open>do_HEAD\<close>, and the 501 answer to a command with no \<open>do_\<close> method)
  is given by the steps it performs on the handler, in order: steps of the library's
  own, and calls of \<open>self.end_headers()\<close>, which Python resolves to the override in
  class \<open>Handler\<close>.
\<close>

datatype 'h step = Self_end_headers | Library "'h \<Rightarrow> 'h"

record 'h base =
  send_header :: "string \<Rightarrow> string \<Rightarrow> 'h \<Rightarrow> 'h"
  super_end_headers :: "'h \<Rightarrow> 'h"
  super_do_GET :: "'h \<Rightarrow> 'h step list"
  super_do_HEAD :: "'h \<Rightarrow> 'h step list"
  send_error_501 :: "'h \<Rightarrow> 'h step list"

text \<open>\<open>Handler.end_headers\<close>, lines 13 to 16.\<close>

definition Handler_end_headers :: "'h base \<Rightarrow> 'h \<Rightarrow> 'h" where
  "Handler_end_headers B self =
     super_end_headers B (send_header B ''Access-Control-Allow-Origin'' ''*'' self)"

text \<open>Library steps run on a \<open>Handler\<close> object.\<close>

fun run_steps :: "'h base \<Rightarrow> 'h step list \<Rightarrow> 'h \<Rightarrow> 'h" where
  "run_steps B [] self = self"
| "run_steps B (Self_end_headers # steps) self = run_steps B steps (Handler_end_headers B self)"
| "run_steps B (Library f # steps) self = run_steps B steps (f self)"

text \<open>\<open>Handler.do_GET\<close>, lines 18 to 22: the assignment to \<open>self.path\<close>, then \<open>super().do_GET()\<close>.\<close>

definition Handler_do_GET ::
  "('z handler_scheme) base \<Rightarrow> 'z handler_scheme \<Rightarrow> 'z handler_scheme" where
  "Handler_do_GET B self =
     (let self' = (if path self = '''' \<or> path self = ''/''
                   then self\<lparr>path := ''/mpmc_animation.html''\<rparr> else self)
      in run_steps B (super_do_GET B self') self')"

text \<open>
  How \<open>http.server\<close> answers a parsed request on a \<open>Handler\<close>: it calls the attribute
  \<open>do_<command>\<close> of the object. Class \<open>Handler\<close> defines \<open>do_GET\<close>, inherits \<open>do_HEAD\<close> and has
  no other \<open>do_\<close> method.
\<close>

definition handle_request ::
  "('z handler_scheme) base \<Rightarrow> 'z handler_scheme \<Rightarrow> 'z handler_scheme" where
  "handle_request B self =
     (if command self = ''GET'' then Handler_do_GET B self
      else if command self = ''HEAD'' then run_steps B (super_do_HEAD B self) self
      else run_steps B (send_error_501 B self) self)"



subsection \<open>A small instance of the inherited methods\<close>

text \<open>
  A handler with a status, a header buffer and the chunks written to the client, serving
  two files and a listing of the directory that holds them.
\<close>

datatype chunk = Head nat "header list" | Body string

record connection = handler +
  status :: nat
  headers_buffer :: "header list"
  wfile :: "chunk list"


definition demo_send_response :: "nat \<Rightarrow> connection \<Rightarrow> connection" where
  "demo_send_response code self = self\<lparr>status := code\<rparr>"

definition demo_send_header :: "string \<Rightarrow> string \<Rightarrow> connection \<Rightarrow> connection" where
  "demo_send_header k v self = self\<lparr>headers_buffer := headers_buffer self @ [(k, v)]\<rparr>"

definition demo_end_headers :: "connection \<Rightarrow> connection" where
  "demo_end_headers self =
     self\<lparr>wfile := wfile self @ [Head (status self) (headers_buffer self)],
          headers_buffer := []\<rparr>"

definition demo_write :: "string \<Rightarrow> connection \<Rightarrow> connection" where
  "demo_write b self = self\<lparr>wfile := wfile self @ [Body b]\<rparr>"

definition demo_files :: "(string \<times> string) list" where
  "demo_files =
     [(''/mpmc_animation.html'', ''<html>animation</html>''), (''/style.css'', ''body {}'')]"

text \<open>
  Status and body for a request path: the query is dropped, and a path of slashes is the
  directory.
\<close>

definition demo_lookup :: "string \<Rightarrow> nat \<times> string" where
  "demo_lookup p =
     (let q = takeWhile (\<lambda>c. c \<noteq> CHR ''?'') p in
      if q \<noteq> [] \<and> set q \<subseteq> {CHR ''/''} then (200, ''<li>mpmc_animation.html<li>style.css'')
      else (case map_of demo_files q of
              Some b \<Rightarrow> (200, b)
            | None \<Rightarrow> (404, ''File not found'')))"

definition demo_send_head :: "nat \<times> string \<Rightarrow> connection step list" where
  "demo_send_head r =
     [Library (demo_send_response (fst r)),
      Library (demo_send_header ''Content-Length'' (str_nat (length (snd r)))),
      Self_end_headers]"

definition demo_base :: "connection base" where
  "demo_base =
     \<lparr>send_header = demo_send_header,
      super_end_headers = demo_end_headers,
      super_do_GET = (\<lambda>self. demo_send_head (demo_lookup (path self)) @
                              [Library (demo_write (snd (demo_lookup (path self))))]),
      super_do_HEAD = (\<lambda>self. demo_send_head (demo_lookup (path self))),
      send_error_501 = (\<lambda>self. demo_send_head (501, ''Unsupported method''))\<rparr>"

definition request :: "string \<Rightarrow> string \<Rightarrow> connection" where
  "request c p = \<lparr>command = c, path = p, status = 0, headers_buffer = [], wfile = []\<rparr>"

subsection \<open>main\<close>

text \<open>
  Lines 26 to 30. The three \<open>add_argument\<close> calls declare the option strings and how each
  option stores its value: converted by \<open>int\<close>, as the string given, or \<open>True\<close> when the
  flag is present.
\<close>

datatype action = store_int | store_str | store_true

definition arguments :: "(string list \<times> action) list" where
  "arguments =
     [([''--port'', ''-p''], store_int), ([''--host''], store_str), ([''--open''], store_true)]"

text \<open>What a command line gives explicitly, and the namespace \<open>parse_args\<close> returns.\<close>

record given =
  given_port :: "int option"
  given_host :: "string option"
  given_open :: bool

record args =
  args_port :: int
  args_host :: string
  args_open :: bool

datatype serve_end = Never_returns | KeyboardInterrupt | Raises exn

text \<open>
  The library calls of \<open>main\<close> are parameters. \<open>argparse_scan\<close> is \<open>argparse\<close> reading the
  command line against the declared arguments: the options it finds with their converted
  values, or the status of the \<open>SystemExit\<close> it raises. \<open>ThreadingHTTPServer\<close> is the
  constructor, which binds and listens, with the exception it raises, if any.
  \<open>serve_forever\<close> is how the serve loop ends, if it does.
\<close>

record env =
  argparse_scan :: "(string list \<times> action) list \<Rightarrow> string list \<Rightarrow> nat + given"
  os_getcwd :: "exn + string"
  os_chdir :: "string \<Rightarrow> exn option"
  ThreadingHTTPServer :: "string \<times> int \<Rightarrow> exn option"
  webbrowser_open :: "string \<Rightarrow> exn + bool"
  serve_forever :: serve_end

text \<open>
  \<open>parser.parse_args()\<close>: an option absent from the command line takes its \<open>default\<close>,
  8000 and \<open>0.0.0.0\<close>; \<open>store_true\<close> defaults to \<open>False\<close>.
\<close>

definition parse_args :: "env \<Rightarrow> string list \<Rightarrow> nat + args" where
  "parse_args E argv =
     (case argparse_scan E arguments argv of
        Inl code \<Rightarrow> Inl code
      | Inr g \<Rightarrow>
          Inr \<lparr>args_port = (case given_port g of Some p \<Rightarrow> p | None \<Rightarrow> 8000),
               args_host = (case given_host g of Some h \<Rightarrow> h | None \<Rightarrow> ''0.0.0.0''),
               args_open = given_open g\<rparr>)"

text \<open>
  What the server does to the outside, in order: the call of the server constructor with
  the address, a \<open>print\<close>, the call of \<open>webbrowser.open\<close>, entering \<open>serve_forever\<close>, and
  \<open>server_close\<close>. A run ends by \<open>main\<close> returning, by \<open>SystemExit\<close>, by an exception that
  nothing catches, or not at all.
\<close>

datatype server_event =
  Server_bind "string \<times> int"
| Server_print string
| Browser_open string
| Serve_forever
| Server_close

datatype outcome = Returned | SystemExit nat | Uncaught exn | Serving

definition url_of :: "int \<Rightarrow> string" where
  "url_of p = ''http://127.0.0.1:'' @ str_int p @ ''/''"

text \<open>
  Lines 32 to 47, for a parsed namespace. The \<open>try\<close> around \<open>webbrowser.open\<close> has the
  handler \<open>pass\<close>: a raise and a return continue alike.
\<close>

definition serve :: "env \<Rightarrow> args \<Rightarrow> server_event list \<times> outcome" where
  "serve E args =
     (case os_getcwd E of
        Inl e \<Rightarrow> ([], Uncaught e)
      | Inr cwd \<Rightarrow>
          (case os_chdir E cwd of
             Some e \<Rightarrow> ([], Uncaught e)
           | None \<Rightarrow>
               (let addr = (args_host args, args_port args) in
                case ThreadingHTTPServer E addr of
                  Some e \<Rightarrow> ([Server_bind addr], Uncaught e)
                | None \<Rightarrow>
                    (let url = url_of (args_port args);
                         started =
                           [Server_bind addr,
                            Server_print (''Serving '' @ cwd @ '' at '' @ url @
                                          '' (press Ctrl-C to stop)'')];
                         launched =
                           (if args_open args then
                              (case webbrowser_open E url of
                                 Inl e \<Rightarrow> [Browser_open url]
                               | Inr b \<Rightarrow> [Browser_open url])
                            else [])
                     in case serve_forever E of
                          Never_returns \<Rightarrow> (started @ launched @ [Serve_forever], Serving)
                        | KeyboardInterrupt \<Rightarrow>
                            (started @ launched @
                             [Serve_forever, Server_print (CHR 0x0A # ''Shutting down''),
                              Server_close], Returned)
                        | Raises e \<Rightarrow> (started @ launched @ [Serve_forever], Uncaught e)))))"

text \<open>
  \<open>main()\<close> of the server on the command line \<open>argv\<close>: \<open>parse_args\<close>, whose \<open>SystemExit\<close>
  nothing catches, then the lines above.
\<close>

definition serve_main :: "env \<Rightarrow> string list \<Rightarrow> server_event list \<times> outcome" where
  "serve_main E argv =
     (case parse_args E argv of
        Inl code \<Rightarrow> ([], SystemExit code)
      | Inr args \<Rightarrow> serve E args)"

text \<open>
  An environment for evaluation: a scanner that knows three command lines, a browser
  that cannot be launched, and a serve loop that runs until it is interrupted.
\<close>

definition demo_env :: env where
  "demo_env =
     \<lparr>argparse_scan = (\<lambda>decl argv.
        if argv = [] then Inr \<lparr>given_port = None, given_host = None, given_open = False\<rparr>
        else if argv = [''--open''] then
          Inr \<lparr>given_port = None, given_host = None, given_open = True\<rparr>
        else if argv = [''-p'', ''9000'', ''--host'', ''127.0.0.1''] then
          Inr \<lparr>given_port = Some 9000, given_host = Some ''127.0.0.1'', given_open = False\<rparr>
        else Inl 2),
      os_getcwd = Inr ''/srv/anim'',
      os_chdir = (\<lambda>d. None),
      ThreadingHTTPServer = (\<lambda>addr. None),
      webbrowser_open = (\<lambda>url. Inl (Exception ''could not locate runnable browser'')),
      serve_forever = KeyboardInterrupt\<rparr>"

section \<open>Properties of the converter\<close>

subsection \<open>The small library meets the PIL contract\<close>

lemma idx_inside: "inside (w, h) (x, y) \<Longrightarrow> y * w + x < w * h"
proof -
  assume "inside (w, h) (x, y)"
  then have xw: "x < w" and yh: "y < h" by (simp_all add: inside_def)
  then have "y * w + x < Suc y * w" by simp
  also have "\<dots> \<le> h * w" using yh by (intro mult_le_mono1) simp
  finally show ?thesis by (simp add: mult.commute)
qed

lemma blend_zero: "blend bg fg [0] = bg"
  by (auto simp: blend_def intro!: nth_equalityI)

lemma new_px: "inside sz xy \<Longrightarrow> pic_getpixel (pic_new m sz (r, g, b)) xy = [r, g, b]"
  using idx_inside[of "fst sz" "snd sz" "fst xy" "snd xy"]
  by (simp add: pic_getpixel_def pic_new_def pixel_at_def mult.commute)

lemma band_px:
  "i < length (pic_getpixel im xy) \<Longrightarrow>
   pic_getpixel (pic_band im i) xy = [pic_getpixel im xy ! i]"
  by (auto simp: pic_getpixel_def pic_band_def pixel_at_def split: if_splits)

lemma paste_px:
  "pic_size alpha = pic_size base \<Longrightarrow> pic_getpixel alpha xy = [0] \<Longrightarrow>
   pic_getpixel (pic_paste base im alpha) xy = pic_getpixel base xy"
  by (auto simp: pic_getpixel_def pic_paste_def pixel_at_def blend_zero split: if_splits)

lemma new_attrs: "pic_mode (pic_new m sz c) = m" "pic_size (pic_new m sz c) = sz"
  by (simp_all add: pic_new_def)

lemma paste_attrs:
  "pic_mode (pic_paste base im a) = pic_mode base"
  "pic_size (pic_paste base im a) = pic_size base"
  by (simp_all add: pic_paste_def)

lemma demo_contract: "pil_contract demo_lib"
  unfolding pil_contract_def
  by (auto simp: demo_lib_def new_px new_attrs paste_attrs pic_split_def band_px paste_px
      split: if_splits)

lemma glass_flat:
  "to_rgb demo_lib glass =
     Inr \<lparr>pic_mode = ''RGB'', pic_size = (2, 1), pic_data = [[10, 20, 30], [255, 255, 255]]\<rparr>"
  by (simp add: to_rgb_def demo_lib_def glass_def and_then_def tuple_index_def pic_split_def
      pic_new_def pic_paste_def pic_band_def blend_def pixel_at_def upt_conv_Cons)

subsection \<open>Colour handling\<close>

lemma to_rgb_rgba:
  "image_mode L img = ''RGBA'' \<Longrightarrow>
   (to_rgb L img = Inr out) =
   (\<exists>canvas bands. Image_new L ''RGB'' (image_size L img) (255, 255, 255) = Inr canvas \<and>
      image_split L img = Inr bands \<and> 3 < length bands \<and>
      image_paste L canvas img (bands ! 3) = Inr out)"
  by (auto simp: to_rgb_def and_then_def tuple_index_def split: sum.splits)

lemma contract_new:
  "pil_contract L \<Longrightarrow> Image_new L m sz (r, g, b) = Inr im \<Longrightarrow>
   image_mode L im = m \<and> image_size L im = sz \<and>
   (inside sz xy \<longrightarrow> getpixel L im xy = [r, g, b])"
  unfolding pil_contract_def by blast

lemma contract_split:
  "pil_contract L \<Longrightarrow> image_split L im = Inr bands \<Longrightarrow> i < length bands \<Longrightarrow>
   inside (image_size L im) xy \<Longrightarrow> i < length (getpixel L im xy) \<Longrightarrow>
   getpixel L (bands ! i) xy = [getpixel L im xy ! i]"
  unfolding pil_contract_def by blast

lemma contract_paste:
  "pil_contract L \<Longrightarrow> image_paste L base im alpha = Inr out \<Longrightarrow>
   image_mode L out = image_mode L base \<and>
   (inside (image_size L base) xy \<longrightarrow> getpixel L alpha xy = [0] \<longrightarrow>
      getpixel L out xy = getpixel L base xy)"
  unfolding pil_contract_def by blast

lemma transparent_white:
  assumes c: "pil_contract L" and m: "image_mode L img = ''RGBA''"
    and ok: "to_rgb L img = Inr out" and ins: "inside (image_size L img) xy"
    and px: "getpixel L img xy = [r, g, b, 0]"
  shows "getpixel L out xy = [255, 255, 255] \<and> image_mode L out = ''RGB''"
proof -
  from ok m obtain canvas bands where
    new: "Image_new L ''RGB'' (image_size L img) (255, 255, 255) = Inr canvas" and
    sp: "image_split L img = Inr bands" and len: "3 < length bands" and
    pa: "image_paste L canvas img (bands ! 3) = Inr out"
    by (auto simp: to_rgb_rgba)
  from contract_new[OF c new, of xy] ins
  have cm: "image_mode L canvas = ''RGB''" and cs: "image_size L canvas = image_size L img"
    and cp: "getpixel L canvas xy = [255, 255, 255]" by simp_all
  from contract_split[OF c sp len ins] px have al: "getpixel L (bands ! 3) xy = [0]"
    by simp
  from contract_paste[OF c pa, of xy] cm cs cp al ins show ?thesis by simp
qed

lemma load_rgb_ok:
  "(load_rgb L svg_file = Inr out) =
     (\<exists>png_data img. svg2png L svg_file = Inr png_data \<and> Image_open L png_data = Inr img \<and>
        to_rgb L img = Inr out)"
  by (auto simp: load_rgb_def and_then_def split: sum.splits)

lemma saved_is_loaded:
  "Save im fp fmt q opt \<in> set (snd (convert_svg_to_jpg L svg_file jpg_file quality)) \<Longrightarrow>
   load_rgb L svg_file = Inr im"
  by (auto simp: convert_svg_to_jpg_def split: sum.splits option.splits)

text \<open>
  Claim C4. The colour handling of \<open>convert_svg_to_jpg\<close> has three cases. An image of mode
  \<open>RGBA\<close> is pasted onto a new \<open>RGB\<close> canvas of its size filled with (255, 255, 255), with
  band 3 of its \<open>split()\<close>, the alpha band, as the mask: the result is what \<open>paste\<close> leaves
  of the canvas, and it exists exactly when the three calls succeed. An image of any other
  mode than \<open>RGB\<close> is the result of \<open>convert('RGB')\<close>. An image of mode \<open>RGB\<close> is used as
  it is. Under the PIL contract, a pixel of an \<open>RGBA\<close> image whose alpha is 0 is white in the
  result, which has mode \<open>RGB\<close>. The image so obtained from the opened rasterisation is the
  only image the function saves.
\<close>

theorem color_normalization:
  "(image_mode L img = ''RGBA'' \<longrightarrow>
      (to_rgb L img = Inr out) =
      (\<exists>canvas bands. Image_new L ''RGB'' (image_size L img) (255, 255, 255) = Inr canvas \<and>
         image_split L img = Inr bands \<and> 3 < length bands \<and>
         image_paste L canvas img (bands ! 3) = Inr out)) \<and>
   (image_mode L img \<noteq> ''RGBA'' \<and> image_mode L img \<noteq> ''RGB'' \<longrightarrow>
      to_rgb L img = image_convert L img ''RGB'') \<and>
   (image_mode L img = ''RGB'' \<longrightarrow> to_rgb L img = Inr img) \<and>
   (pil_contract L \<and> image_mode L img = ''RGBA'' \<and> to_rgb L img = Inr out \<and>
    inside (image_size L img) xy \<and> getpixel L img xy = [r, g, b, 0] \<longrightarrow>
      getpixel L out xy = [255, 255, 255] \<and> image_mode L out = ''RGB'') \<and>
   (load_rgb L svg_file = Inr out) =
     (\<exists>png_data img. svg2png L svg_file = Inr png_data \<and> Image_open L png_data = Inr img \<and>
        to_rgb L img = Inr out) \<and>
   (\<forall>im fp fmt q opt.
      Save im fp fmt q opt \<in> set (snd (convert_svg_to_jpg L svg_file jpg_file quality)) \<longrightarrow>
      load_rgb L svg_file = Inr im)"
proof -
  have 1: "image_mode L img = ''RGBA'' \<longrightarrow>
      (to_rgb L img = Inr out) =
      (\<exists>canvas bands. Image_new L ''RGB'' (image_size L img) (255, 255, 255) = Inr canvas \<and>
         image_split L img = Inr bands \<and> 3 < length bands \<and>
         image_paste L canvas img (bands ! 3) = Inr out)"
    using to_rgb_rgba[of L img out] by blast
  have 2: "image_mode L img \<noteq> ''RGBA'' \<and> image_mode L img \<noteq> ''RGB'' \<longrightarrow>
      to_rgb L img = image_convert L img ''RGB''"
    by (simp add: to_rgb_def)
  have 3: "image_mode L img = ''RGB'' \<longrightarrow> to_rgb L img = Inr img"
    by (simp add: to_rgb_def)
  have 4: "pil_contract L \<and> image_mode L img = ''RGBA'' \<and> to_rgb L img = Inr out \<and>
    inside (image_size L img) xy \<and> getpixel L img xy = [r, g, b, 0] \<longrightarrow>
      getpixel L out xy = [255, 255, 255] \<and> image_mode L out = ''RGB''"
    using transparent_white[of L img out xy r g b] by blast
  have 6: "\<forall>im fp fmt q opt.
      Save im fp fmt q opt \<in> set (snd (convert_svg_to_jpg L svg_file jpg_file quality)) \<longrightarrow>
      load_rgb L svg_file = Inr im"
    by (intro allI impI) (rule saved_is_loaded)
  show ?thesis by (intro conjI 1 2 3 4 6 load_rgb_ok)
qed

theorem color_normalization_witness:
  "pil_contract demo_lib \<and> image_mode demo_lib glass = ''RGBA'' \<and>
   inside (image_size demo_lib glass) (1, 0) \<and>
   getpixel demo_lib glass (1, 0) = [40, 50, 60, 0] \<and>
   to_rgb demo_lib glass =
     Inr \<lparr>pic_mode = ''RGB'', pic_size = (2, 1),
          pic_data = [[10, 20, 30], [255, 255, 255]]\<rparr> \<and>
   getpixel demo_lib
     \<lparr>pic_mode = ''RGB'', pic_size = (2, 1),
      pic_data = [[10, 20, 30], [255, 255, 255]]\<rparr> (1, 0) = [255, 255, 255] \<and>
   image_mode demo_lib grey = ''L'' \<and>
   to_rgb demo_lib grey = image_convert demo_lib grey ''RGB'' \<and>
   to_rgb demo_lib grey =
     Inr \<lparr>pic_mode = ''RGB'', pic_size = (1, 1), pic_data = [[77, 77, 77]]\<rparr>"
proof -
  have g: "image_convert demo_lib grey ''RGB'' =
      Inr \<lparr>pic_mode = ''RGB'', pic_size = (1, 1), pic_data = [[77, 77, 77]]\<rparr>"
    by (simp add: demo_lib_def grey_def pic_convert_def)
  have p: "getpixel demo_lib glass (1, 0) = [40, 50, 60, 0]"
    "inside (image_size demo_lib glass) (1, 0)"
    "image_mode demo_lib glass = ''RGBA''" "image_mode demo_lib grey = ''L''"
    by (simp_all add: demo_lib_def glass_def grey_def pic_getpixel_def pixel_at_def inside_def)
  have w: "getpixel demo_lib
     \<lparr>pic_mode = ''RGB'', pic_size = (2, 1),
      pic_data = [[10, 20, 30], [255, 255, 255]]\<rparr> (1, 0) = [255, 255, 255]"
    using color_normalization[of demo_lib glass
      "\<lparr>pic_mode = ''RGB'', pic_size = (2, 1),
        pic_data = [[10, 20, 30], [255, 255, 255]]\<rparr>" "(1, 0)" 40 50 60]
      demo_contract glass_flat p by blast
  have c: "to_rgb demo_lib grey = image_convert demo_lib grey ''RGB''"
    using color_normalization[of demo_lib grey] p by simp
  from demo_contract glass_flat g p w c show ?thesis by simp
qed

subsection \<open>The batch\<close>

lemma startswith_append: "length old \<le> length x \<Longrightarrow> startswith (x @ y) old = startswith x old"
  by (simp add: startswith_def)

lemma replace_absent: "\<not> contains s old \<Longrightarrow> replace s old new = s"
  by (induction s) (auto simp: replace.simps(2) startswith_def)

lemma replace_leftmost:
  "old \<noteq> [] \<Longrightarrow> \<not> contains (a @ butlast old) old \<Longrightarrow>
   replace (a @ old @ b) old new = a @ new @ replace b old new"
proof (induction a)
  case Nil
  then show ?case by (cases old) (auto simp: replace.simps(2) startswith_def)
next
  case (Cons c a)
  have "c # a @ old @ b = (c # a @ butlast old) @ (last old # b)"
    using Cons.prems(1) by simp
  moreover have "length old \<le> length (c # a @ butlast old)" by simp
  ultimately have "startswith (c # a @ old @ b) old = startswith (c # a @ butlast old) old"
    using startswith_append by metis
  with Cons show ?case by (auto simp: replace.simps(2))
qed

lemma main_loop_eq:
  "main_loop L fs k =
     (k + length (filter (\<lambda>f. fst (convert_svg_to_jpg L f (replace f ''.svg'' ''.jpg'') 95)) fs),
      concat (map (\<lambda>f. snd (convert_svg_to_jpg L f (replace f ''.svg'' ''.jpg'') 95)) fs))"
  by (induction fs arbitrary: k) (auto split: prod.splits)

lemma convert_main_found:
  assumes "os_listdir L ''.'' = Inr names"
    and "filter (\<lambda>f. endswith f ''.svg'') names = svg_files"
    and "svg_files \<noteq> []"
  shows "convert_main L =
     (Inr (),
      Print (found_line (length svg_files)) #
      concat (map (\<lambda>f. snd (convert_svg_to_jpg L f (replace f ''.svg'' ''.jpg'') 95)) svg_files) @
      [Print (tally_line
         (length (filter (\<lambda>f. fst (convert_svg_to_jpg L f (replace f ''.svg'' ''.jpg'') 95)) svg_files))
         (length svg_files))])"
  using assms by (simp add: convert_main_def main_loop_eq)

lemma convert_main_none:
  assumes "os_listdir L ''.'' = Inr names"
    and "filter (\<lambda>f. endswith f ''.svg'') names = []"
  shows "convert_main L = (Inr (), [Print ''No SVG files found in current directory''])"
  using assms by (simp add: convert_main_def)

lemma save_in_convert:
  "(Save im dst fmt q opt \<in> set (snd (convert_svg_to_jpg L f j k))) =
   (load_rgb L f = Inr im \<and> dst = j \<and> fmt = ''JPEG'' \<and> q = k \<and> opt)"
  by (auto simp: convert_svg_to_jpg_def split: sum.splits option.splits)

lemma save_in_main:
  assumes "os_listdir L ''.'' = Inr names"
  shows "(Save im dst fmt q opt \<in> set (snd (convert_main L))) =
    (\<exists>f \<in> set names. endswith f ''.svg'' \<and> load_rgb L f = Inr im \<and>
       dst = replace f ''.svg'' ''.jpg'' \<and> fmt = ''JPEG'' \<and> q = 95 \<and> opt)"
proof (cases "filter (\<lambda>f. endswith f ''.svg'') names = []")
  case True
  then have "\<forall>f \<in> set names. \<not> endswith f ''.svg''" by (simp add: filter_empty_conv)
  with True assms show ?thesis by (auto simp: convert_main_none)
next
  case False
  from convert_main_found[OF assms refl False] show ?thesis
    by (auto simp: save_in_convert)
qed


















text \<open>
  Claim C9. When no listed name ends in \<open>.svg\<close>, the events of \<open>main\<close> are the single line
  \<open>No SVG files found in current directory\<close>: no discovery line, no line for a file, no
  tally line, no file rasterised and none saved.
\<close>

theorem no_svg_files:
  "os_listdir L ''.'' = Inr names \<Longrightarrow> \<forall>f \<in> set names. \<not> endswith f ''.svg'' \<Longrightarrow>
   convert_main L = (Inr (), [Print ''No SVG files found in current directory'']) \<and>
   (\<forall>f. Svg2png f \<notin> set (snd (convert_main L))) \<and>
   (\<forall>im fp fmt q opt. Save im fp fmt q opt \<notin> set (snd (convert_main L)))"
proof -
  assume a: "os_listdir L ''.'' = Inr names" and n: "\<forall>f \<in> set names. \<not> endswith f ''.svg''"
  from n have "filter (\<lambda>f. endswith f ''.svg'') names = []" by (simp add: filter_empty_conv)
  from convert_main_none[OF a this] show ?thesis by simp
qed

lemma plain_names: "os_listdir plain_lib ''.'' = Inr [''notes.txt'', ''drawing.svg.bak'']"
  by (simp add: plain_lib_def)

theorem no_svg_files_witness:
  "os_listdir plain_lib ''.'' = Inr [''notes.txt'', ''drawing.svg.bak''] \<and>
   \<not> endswith ''notes.txt'' ''.svg'' \<and> \<not> endswith ''drawing.svg.bak'' ''.svg'' \<and>
   convert_main plain_lib = (Inr (), [Print ''No SVG files found in current directory''])"
proof -
  have e: "\<not> endswith ''notes.txt'' ''.svg''" "\<not> endswith ''drawing.svg.bak'' ''.svg''"
    by (simp_all add: endswith_def)
  then have "\<forall>f \<in> set [''notes.txt'', ''drawing.svg.bak'']. \<not> endswith f ''.svg''" by simp
  from no_svg_files[OF plain_names this] plain_names e show ?thesis by simp
qed

text \<open>
  Claim C1, as amended. Every file that \<open>main\<close> saves has the destination
  \<open>f.replace('.svg', '.jpg')\<close> for a listed name \<open>f\<close> ending in \<open>.svg\<close>, and every such \<open>f\<close>
  whose image is obtained is saved there. The replacement substitutes every occurrence of
  \<open>.svg\<close>, from the left: a name with no occurrence is unchanged, and after the leftmost
  occurrence the rest of the name is treated the same way.
\<close>

theorem destination_replaces_every_occurrence:
  "os_listdir L ''.'' = Inr names \<Longrightarrow>
   (\<forall>im dst fmt q opt. Save im dst fmt q opt \<in> set (snd (convert_main L)) \<longrightarrow>
      (\<exists>f \<in> set names. endswith f ''.svg'' \<and> dst = replace f ''.svg'' ''.jpg'')) \<and>
   (\<forall>f \<in> set names. \<forall>im. endswith f ''.svg'' \<longrightarrow> load_rgb L f = Inr im \<longrightarrow>
      Save im (replace f ''.svg'' ''.jpg'') ''JPEG'' 95 True \<in> set (snd (convert_main L))) \<and>
   (\<forall>a b. \<not> contains (a @ ''.sv'') ''.svg'' \<longrightarrow>
      replace (a @ ''.svg'' @ b) ''.svg'' ''.jpg'' = a @ ''.jpg'' @ replace b ''.svg'' ''.jpg'') \<and>
   (\<forall>s. \<not> contains s ''.svg'' \<longrightarrow> replace s ''.svg'' ''.jpg'' = s)"
proof -
  assume a: "os_listdir L ''.'' = Inr names"
  have 1: "\<forall>im dst fmt q opt. Save im dst fmt q opt \<in> set (snd (convert_main L)) \<longrightarrow>
      (\<exists>f \<in> set names. endswith f ''.svg'' \<and> dst = replace f ''.svg'' ''.jpg'')"
    by (auto simp: save_in_main[OF a])
  have 2: "\<forall>f \<in> set names. \<forall>im. endswith f ''.svg'' \<longrightarrow> load_rgb L f = Inr im \<longrightarrow>
      Save im (replace f ''.svg'' ''.jpg'') ''JPEG'' 95 True \<in> set (snd (convert_main L))"
    by (auto simp: save_in_main[OF a])
  have 3: "\<forall>a b. \<not> contains (a @ ''.sv'') ''.svg'' \<longrightarrow>
      replace (a @ ''.svg'' @ b) ''.svg'' ''.jpg'' = a @ ''.jpg'' @ replace b ''.svg'' ''.jpg''"
    using replace_leftmost[of "''.svg''" _ _ "''.jpg''"] by simp
  have 4: "\<forall>s. \<not> contains s ''.svg'' \<longrightarrow> replace s ''.svg'' ''.jpg'' = s"
    by (simp add: replace_absent)
  show ?thesis by (intro conjI 1 2 3 4)
qed

lemma backup_names: "os_listdir backup_lib ''.'' = Inr [''my.svg.backup.svg'']"
  by (simp add: backup_lib_def)

lemma backup_load:
  "load_rgb backup_lib ''my.svg.backup.svg'' =
     Inr \<lparr>pic_mode = ''RGB'', pic_size = (2, 1), pic_data = [[10, 20, 30], [255, 255, 255]]\<rparr>"
proof -
  have "svg2png backup_lib ''my.svg.backup.svg'' = Inr ''PNG:my.svg.backup.svg''"
    and "Image_open backup_lib ''PNG:my.svg.backup.svg'' = Inr glass"
    and "to_rgb backup_lib glass = to_rgb demo_lib glass"
    by (simp_all add: backup_lib_def demo_lib_def to_rgb_def)
  then show ?thesis by (simp add: load_rgb_def and_then_def glass_flat)
qed

lemma backup_jpg: "replace ''my.svg.backup.svg'' ''.svg'' ''.jpg'' = ''my.jpg.backup.jpg''"
  by (simp add: replace.simps(2) startswith_def)

lemma backup_ends: "endswith ''my.svg.backup.svg'' ''.svg''"
  by (simp add: endswith_def)

theorem destination_replaces_every_occurrence_witness:
  "os_listdir backup_lib ''.'' = Inr [''my.svg.backup.svg''] \<and>
   endswith ''my.svg.backup.svg'' ''.svg'' \<and>
   replace ''my.svg.backup.svg'' ''.svg'' ''.jpg'' = ''my.jpg.backup.jpg'' \<and>
   Save \<lparr>pic_mode = ''RGB'', pic_size = (2, 1), pic_data = [[10, 20, 30], [255, 255, 255]]\<rparr>
     ''my.jpg.backup.jpg'' ''JPEG'' 95 True \<in> set (snd (convert_main backup_lib))"
  using destination_replaces_every_occurrence[OF backup_names] backup_names backup_ends
    backup_load backup_jpg
  by simp

text \<open>
  The first-occurrence reading fails on \<open>my.svg.backup.svg\<close>: the file is saved as
  \<open>my.jpg.backup.jpg\<close>, where replacing the first occurrence alone gives
  \<open>my.jpg.backup.svg\<close>.
\<close>

theorem first_occurrence_counterexample:
  "os_listdir backup_lib ''.'' = Inr [''my.svg.backup.svg''] \<and>
   snd (convert_main backup_lib) =
     [Print (found_line 1),
      Svg2png ''my.svg.backup.svg'',
      Save \<lparr>pic_mode = ''RGB'', pic_size = (2, 1),
            pic_data = [[10, 20, 30], [255, 255, 255]]\<rparr> ''my.jpg.backup.jpg'' ''JPEG'' 95 True,
      Print (converted_line ''my.svg.backup.svg'' ''my.jpg.backup.jpg''),
      Print (tally_line 1 1)] \<and>
   replace_first ''my.svg.backup.svg'' ''.svg'' ''.jpg'' = ''my.jpg.backup.svg'' \<and>
   replace ''my.svg.backup.svg'' ''.svg'' ''.jpg'' \<noteq>
     replace_first ''my.svg.backup.svg'' ''.svg'' ''.jpg''"
proof -
  have f: "filter (\<lambda>f. endswith f ''.svg'') [''my.svg.backup.svg''] = [''my.svg.backup.svg'']"
    by (simp add: endswith_def)
  have s: "image_save backup_lib im fp fmt q opt = None" for im fp fmt q opt
    by (simp add: backup_lib_def demo_lib_def)
  have m: "snd (convert_main backup_lib) =
     [Print (found_line 1),
      Svg2png ''my.svg.backup.svg'',
      Save \<lparr>pic_mode = ''RGB'', pic_size = (2, 1),
            pic_data = [[10, 20, 30], [255, 255, 255]]\<rparr> ''my.jpg.backup.jpg'' ''JPEG'' 95 True,
      Print (converted_line ''my.svg.backup.svg'' ''my.jpg.backup.jpg''),
      Print (tally_line 1 1)]"
    by (simp add: convert_main_found[OF backup_names f] backup_jpg convert_svg_to_jpg_def
        backup_load s)
  have r: "replace_first ''my.svg.backup.svg'' ''.svg'' ''.jpg'' = ''my.jpg.backup.svg''"
    by (simp add: startswith_def)
  from backup_names m r backup_jpg show ?thesis by simp
qed

section \<open>Properties of the server\<close>

subsection \<open>The request handler\<close>













lemma look_root: "demo_lookup ''/'' = (200, ''<li>mpmc_animation.html<li>style.css'')"
  by (simp add: demo_lookup_def)
lemma look_anim: "demo_lookup ''/mpmc_animation.html'' = (200, ''<html>animation</html>'')"
  by (simp add: demo_lookup_def demo_files_def)
lemma look_missing: "demo_lookup ''/missing'' = (404, ''File not found'')"
  by (simp add: demo_lookup_def demo_files_def)

lemmas demo_eval =
  handle_request_def Handler_do_GET_def Handler_end_headers_def request_def demo_base_def
  demo_send_head_def demo_send_response_def demo_send_header_def demo_end_headers_def
  demo_write_def

lemma get_root:
  "handle_request demo_base (request ''GET'' ''/'') =
     \<lparr>command = ''GET'', path = ''/mpmc_animation.html'', status = 200, headers_buffer = [],
      wfile = [Head 200 [(''Content-Length'', ''22''), (''Access-Control-Allow-Origin'', ''*'')],
               Body ''<html>animation</html>'']\<rparr>"
  by (simp add: demo_eval look_anim str_nat.simps)

lemma get_anim:
  "handle_request demo_base (request ''GET'' ''/mpmc_animation.html'') =
     \<lparr>command = ''GET'', path = ''/mpmc_animation.html'', status = 200, headers_buffer = [],
      wfile = [Head 200 [(''Content-Length'', ''22''), (''Access-Control-Allow-Origin'', ''*'')],
               Body ''<html>animation</html>'']\<rparr>"
  by (simp add: demo_eval look_anim str_nat.simps)

lemma get_missing:
  "handle_request demo_base (request ''GET'' ''/missing'') =
     \<lparr>command = ''GET'', path = ''/missing'', status = 404, headers_buffer = [],
      wfile = [Head 404 [(''Content-Length'', ''14''), (''Access-Control-Allow-Origin'', ''*'')],
               Body ''File not found'']\<rparr>"
  by (simp add: demo_eval look_missing str_nat.simps)


lemma head_root:
  "handle_request demo_base (request ''HEAD'' ''/'') =
     \<lparr>command = ''HEAD'', path = ''/'', status = 200, headers_buffer = [],
      wfile = [Head 200 [(''Content-Length'', ''36''), (''Access-Control-Allow-Origin'', ''*'')]]\<rparr>"
  by (simp add: demo_eval look_root str_nat.simps)

lemma head_anim:
  "handle_request demo_base (request ''HEAD'' ''/mpmc_animation.html'') =
     \<lparr>command = ''HEAD'', path = ''/mpmc_animation.html'', status = 200, headers_buffer = [],
      wfile = [Head 200 [(''Content-Length'', ''22''), (''Access-Control-Allow-Origin'', ''*'')]]\<rparr>"
  by (simp add: demo_eval look_anim str_nat.simps)





lemma do_GET_root:
  "path self = '''' \<or> path self = ''/'' \<Longrightarrow>
   Handler_do_GET B self =
     run_steps B (super_do_GET B (self\<lparr>path := ''/mpmc_animation.html''\<rparr>))
       (self\<lparr>path := ''/mpmc_animation.html''\<rparr>)"
  by (auto simp: Handler_do_GET_def Let_def)

lemma do_GET_other:
  "path self \<noteq> '''' \<Longrightarrow> path self \<noteq> ''/'' \<Longrightarrow>
   Handler_do_GET B self = run_steps B (super_do_GET B self) self"
  by (simp add: Handler_do_GET_def)

text \<open>
  Claim C2, as amended. For a \<open>GET\<close> request whose path is empty or \<open>/\<close>, the handler sets
  the path to \<open>/mpmc_animation.html\<close> and then runs the inherited \<open>do_GET\<close> on it, so the
  request is answered as the \<open>GET\<close> request for \<open>/mpmc_animation.html\<close> is. For a \<open>GET\<close>
  request with any other path the inherited \<open>do_GET\<close> runs on the handler as it is.
\<close>

theorem get_root_serves_animation:
  "command self = ''GET'' \<Longrightarrow>
   (path self = '''' \<or> path self = ''/'' \<longrightarrow>
      handle_request B self =
        run_steps B (super_do_GET B (self\<lparr>path := ''/mpmc_animation.html''\<rparr>))
          (self\<lparr>path := ''/mpmc_animation.html''\<rparr>) \<and>
      handle_request B self = handle_request B (self\<lparr>path := ''/mpmc_animation.html''\<rparr>)) \<and>
   (path self \<noteq> '''' \<and> path self \<noteq> ''/'' \<longrightarrow>
      handle_request B self = run_steps B (super_do_GET B self) self)"
proof -
  assume c: "command self = ''GET''"
  have a: "Handler_do_GET B (self\<lparr>path := ''/mpmc_animation.html''\<rparr>) =
      run_steps B (super_do_GET B (self\<lparr>path := ''/mpmc_animation.html''\<rparr>))
        (self\<lparr>path := ''/mpmc_animation.html''\<rparr>)"
    by (simp add: do_GET_other)
  from c a show ?thesis
    by (auto simp: handle_request_def do_GET_root do_GET_other)
qed

theorem get_root_serves_animation_witness:
  "command (request ''GET'' ''/'') = ''GET'' \<and> path (request ''GET'' ''/'') = ''/'' \<and>
   handle_request demo_base (request ''GET'' ''/'') =
     handle_request demo_base (request ''GET'' ''/mpmc_animation.html'') \<and>
   wfile (handle_request demo_base (request ''GET'' ''/'')) =
     [Head 200 [(''Content-Length'', ''22''), (''Access-Control-Allow-Origin'', ''*'')],
      Body ''<html>animation</html>''] \<and>
   wfile (handle_request demo_base (request ''GET'' ''/missing'')) =
     [Head 404 [(''Content-Length'', ''14''), (''Access-Control-Allow-Origin'', ''*'')],
      Body ''File not found'']"
proof -
  have r: "(request ''GET'' ''/'')\<lparr>path := ''/mpmc_animation.html''\<rparr> =
      request ''GET'' ''/mpmc_animation.html''"
    by (simp add: request_def)
  have c: "command (request ''GET'' ''/'') = ''GET''" and p: "path (request ''GET'' ''/'') = ''/''"
    by (simp_all add: request_def)
  from get_root_serves_animation[OF c, of demo_base] p
  have "handle_request demo_base (request ''GET'' ''/'') =
     handle_request demo_base ((request ''GET'' ''/'')\<lparr>path := ''/mpmc_animation.html''\<rparr>)"
    by blast
  then have e: "handle_request demo_base (request ''GET'' ''/'') =
     handle_request demo_base (request ''GET'' ''/mpmc_animation.html'')"
    by (simp only: r)
  have w: "wfile (handle_request demo_base (request ''GET'' ''/'')) =
     [Head 200 [(''Content-Length'', ''22''), (''Access-Control-Allow-Origin'', ''*'')],
      Body ''<html>animation</html>'']"
    by (simp add: get_root)
  have m: "wfile (handle_request demo_base (request ''GET'' ''/missing'')) =
     [Head 404 [(''Content-Length'', ''14''), (''Access-Control-Allow-Origin'', ''*'')],
      Body ''File not found'']"
    by (simp add: get_missing)
  show ?thesis by (intro conjI c p e w m)
qed

text \<open>
  The rewrite is in \<open>do_GET\<close> alone: a \<open>HEAD\<close> request for \<open>/\<close> runs the inherited \<open>do_HEAD\<close> on
  the path \<open>/\<close>, and is answered with the headers of the directory, not with those of
  \<open>/mpmc_animation.html\<close>.
\<close>

theorem head_root_counterexample:
  "command (request ''HEAD'' ''/'') = ''HEAD'' \<and> path (request ''HEAD'' ''/'') = ''/'' \<and>
   path (handle_request demo_base (request ''HEAD'' ''/'')) = ''/'' \<and>
   wfile (handle_request demo_base (request ''HEAD'' ''/'')) =
     [Head 200 [(''Content-Length'', ''36''), (''Access-Control-Allow-Origin'', ''*'')]] \<and>
   wfile (handle_request demo_base (request ''HEAD'' ''/mpmc_animation.html'')) =
     [Head 200 [(''Content-Length'', ''22''), (''Access-Control-Allow-Origin'', ''*'')]] \<and>
   handle_request demo_base (request ''HEAD'' ''/'') =
     run_steps demo_base (super_do_HEAD demo_base (request ''HEAD'' ''/'')) (request ''HEAD'' ''/'') \<and>
   wfile (handle_request demo_base (request ''HEAD'' ''/'')) \<noteq>
     wfile (handle_request demo_base (request ''HEAD'' ''/mpmc_animation.html''))"
proof -
  have c: "command (request ''HEAD'' ''/'') = ''HEAD''" and p: "path (request ''HEAD'' ''/'') = ''/''"
    by (simp_all add: request_def)
  have q: "path (handle_request demo_base (request ''HEAD'' ''/'')) = ''/''"
    by (simp add: head_root)
  have w: "wfile (handle_request demo_base (request ''HEAD'' ''/'')) =
     [Head 200 [(''Content-Length'', ''36''), (''Access-Control-Allow-Origin'', ''*'')]]"
    by (simp add: head_root)
  have v: "wfile (handle_request demo_base (request ''HEAD'' ''/mpmc_animation.html'')) =
     [Head 200 [(''Content-Length'', ''22''), (''Access-Control-Allow-Origin'', ''*'')]]"
    by (simp add: head_anim)
  have h: "handle_request demo_base (request ''HEAD'' ''/'') =
     run_steps demo_base (super_do_HEAD demo_base (request ''HEAD'' ''/'')) (request ''HEAD'' ''/'')"
    by (simp add: handle_request_def request_def)
  have d: "wfile (handle_request demo_base (request ''HEAD'' ''/'')) \<noteq>
     wfile (handle_request demo_base (request ''HEAD'' ''/mpmc_animation.html''))"
    by (simp add: head_root head_anim)
  show ?thesis by (intro conjI c p q w v h d)
qed



subsection \<open>Start-up\<close>

lemma serve_binds:
  "Server_bind addr \<in> set (fst (serve E a)) \<Longrightarrow> addr = (args_host a, args_port a)"
  by (auto simp: serve_def Let_def split: sum.splits option.splits serve_end.splits if_splits)

lemma serve_browser:
  "Browser_open u \<in> set (fst (serve E a)) \<Longrightarrow> args_open a \<and> u = url_of (args_port a)"
  by (auto simp: serve_def Let_def split: sum.splits option.splits serve_end.splits if_splits)

lemma serve_starts:
  "os_getcwd E = Inr cwd \<Longrightarrow> os_chdir E cwd = None \<Longrightarrow>
   hd (fst (serve E a)) = Server_bind (args_host a, args_port a)"
  by (auto simp: serve_def Let_def split: option.splits serve_end.splits)

lemma serve_reaches_loop:
  "os_getcwd E = Inr cwd \<Longrightarrow> os_chdir E cwd = None \<Longrightarrow>
   ThreadingHTTPServer E (args_host a, args_port a) = None \<Longrightarrow>
   Serve_forever \<in> set (fst (serve E a)) \<and>
   (args_open a \<longrightarrow> Browser_open (url_of (args_port a)) \<in> set (fst (serve E a)))"
  by (auto simp: serve_def Let_def split: sum.splits serve_end.splits)

lemma serve_without_flag:
  "filter (\<lambda>ev. ev \<noteq> Browser_open (url_of (args_port a))) (fst (serve E a)) =
     fst (serve E (a\<lparr>args_open := False\<rparr>)) \<and>
   snd (serve E a) = snd (serve E (a\<lparr>args_open := False\<rparr>))"
  by (auto simp: serve_def Let_def split: sum.splits option.splits serve_end.splits)

lemma demo_scan_none:
  "argparse_scan demo_env arguments [] =
     Inr \<lparr>given_port = None, given_host = None, given_open = False\<rparr>"
  by (simp add: demo_env_def)

lemma demo_scan_open:
  "argparse_scan demo_env arguments [''--open''] =
     Inr \<lparr>given_port = None, given_host = None, given_open = True\<rparr>"
  by (simp add: demo_env_def)

lemma demo_scan_port:
  "argparse_scan demo_env arguments [''-p'', ''9000'', ''--host'', ''127.0.0.1''] =
     Inr \<lparr>given_port = Some 9000, given_host = Some ''127.0.0.1'', given_open = False\<rparr>"
  by (simp add: demo_env_def)

lemma url_8000: "url_of 8000 = ''http://127.0.0.1:8000/''"
  by (simp add: url_of_def str_int_def str_nat.simps)

lemma url_9000: "url_of 9000 = ''http://127.0.0.1:9000/''"
  by (simp add: url_of_def str_int_def str_nat.simps)

lemma demo_serve:
  "serve demo_env a =
     ([Server_bind (args_host a, args_port a),
       Server_print (''Serving /srv/anim at '' @ url_of (args_port a) @ '' (press Ctrl-C to stop)'')] @
      (if args_open a then [Browser_open (url_of (args_port a))] else []) @
      [Serve_forever, Server_print (CHR 0x0A # ''Shutting down''), Server_close], Returned)"
  by (simp add: serve_def demo_env_def Let_def)

text \<open>
  Claim C7. When the command line sets \<open>--open\<close> and \<open>webbrowser.open\<close> raises or returns
  \<open>False\<close>, the run has the events and the end of the run without the flag, but for the
  call of \<open>webbrowser.open\<close> itself: nothing more is printed, and when the server could be
  created the serve loop is entered.
\<close>

theorem browser_failure_ignored:
  "parse_args E argv = Inr a \<Longrightarrow> args_open a \<Longrightarrow>
   webbrowser_open E (url_of (args_port a)) = Inl e \<or>
   webbrowser_open E (url_of (args_port a)) = Inr False \<Longrightarrow>
   filter (\<lambda>ev. ev \<noteq> Browser_open (url_of (args_port a))) (fst (serve_main E argv)) =
     fst (serve E (a\<lparr>args_open := False\<rparr>)) \<and>
   snd (serve_main E argv) = snd (serve E (a\<lparr>args_open := False\<rparr>)) \<and>
   (\<forall>cwd. os_getcwd E = Inr cwd \<and> os_chdir E cwd = None \<and>
      ThreadingHTTPServer E (args_host a, args_port a) = None \<longrightarrow>
      Browser_open (url_of (args_port a)) \<in> set (fst (serve_main E argv)) \<and>
      Serve_forever \<in> set (fst (serve_main E argv)))"
proof -
  assume p: "parse_args E argv = Inr a" and o: "args_open a"
  then have m: "serve_main E argv = serve E a" by (simp add: serve_main_def)
  from serve_without_flag[of a E] serve_reaches_loop[of E _ a] o show ?thesis
    unfolding m by blast
qed

theorem browser_failure_ignored_witness:
  "parse_args demo_env [''--open''] =
     Inr \<lparr>args_port = 8000, args_host = ''0.0.0.0'', args_open = True\<rparr> \<and>
   webbrowser_open demo_env (url_of 8000) =
     Inl (Exception ''could not locate runnable browser'') \<and>
   serve_main demo_env [''--open''] =
     ([Server_bind (''0.0.0.0'', 8000),
       Server_print ''Serving /srv/anim at http://127.0.0.1:8000/ (press Ctrl-C to stop)'',
       Browser_open ''http://127.0.0.1:8000/'',
       Serve_forever, Server_print (CHR 0x0A # ''Shutting down''), Server_close], Returned) \<and>
   serve_main demo_env [] =
     ([Server_bind (''0.0.0.0'', 8000),
       Server_print ''Serving /srv/anim at http://127.0.0.1:8000/ (press Ctrl-C to stop)'',
       Serve_forever, Server_print (CHR 0x0A # ''Shutting down''), Server_close], Returned) \<and>
   filter (\<lambda>ev. ev \<noteq> Browser_open (url_of 8000)) (fst (serve_main demo_env [''--open''])) =
     fst (serve_main demo_env [])"
proof -
  let ?a = "\<lparr>args_port = 8000, args_host = ''0.0.0.0'', args_open = True\<rparr>"
  have p: "parse_args demo_env [''--open''] = Inr ?a"
    by (simp add: parse_args_def demo_scan_open)
  have q: "parse_args demo_env [] = Inr (?a\<lparr>args_open := False\<rparr>)"
    by (simp add: parse_args_def demo_scan_none)
  have w: "webbrowser_open demo_env (url_of 8000) =
     Inl (Exception ''could not locate runnable browser'')"
    by (simp add: demo_env_def)
  have m: "serve_main demo_env [''--open''] =
     ([Server_bind (''0.0.0.0'', 8000),
       Server_print ''Serving /srv/anim at http://127.0.0.1:8000/ (press Ctrl-C to stop)'',
       Browser_open ''http://127.0.0.1:8000/'',
       Serve_forever, Server_print (CHR 0x0A # ''Shutting down''), Server_close], Returned)"
    by (simp add: serve_main_def p demo_serve url_8000)
  have n: "serve_main demo_env [] =
     ([Server_bind (''0.0.0.0'', 8000),
       Server_print ''Serving /srv/anim at http://127.0.0.1:8000/ (press Ctrl-C to stop)'',
       Serve_forever, Server_print (CHR 0x0A # ''Shutting down''), Server_close], Returned)"
    by (simp add: serve_main_def q demo_serve url_8000)
  have s: "serve_main demo_env [] = serve demo_env (?a\<lparr>args_open := False\<rparr>)"
    by (simp add: serve_main_def q)
  from browser_failure_ignored[OF p, of "Exception ''could not locate runnable browser''"] w
  have "filter (\<lambda>ev. ev \<noteq> Browser_open (url_of 8000)) (fst (serve_main demo_env [''--open''])) =
     fst (serve demo_env (?a\<lparr>args_open := False\<rparr>))"
    by simp
  then have f: "filter (\<lambda>ev. ev \<noteq> Browser_open (url_of 8000))
      (fst (serve_main demo_env [''--open''])) = fst (serve_main demo_env [])"
    by (simp only: s)
  show ?thesis by (intro conjI p w m n f)
qed


text \<open>
  Claim C8. The parser declares \<open>--port\<close>/\<open>-p\<close> stored through \<open>int\<close>, \<open>--host\<close> stored as a
  string and \<open>--open\<close> as a \<open>store_true\<close> flag. The namespace takes the port from the
  command line or else 8000, the host from the command line or else \<open>0.0.0.0\<close>, and
  \<open>open\<close> is whether the flag was given. The server is created on (host, port) of the
  namespace and the browser is only launched when \<open>open\<close> is set. With no option given the
  server is created on (\<open>0.0.0.0\<close>, 8000) and the browser is not launched.
\<close>

theorem cli_defaults:
  "argparse_scan E arguments argv = Inr g \<Longrightarrow>
   (\<exists>a. parse_args E argv = Inr a \<and> serve_main E argv = serve E a \<and>
      args_port a = (case given_port g of None \<Rightarrow> 8000 | Some p \<Rightarrow> p) \<and>
      args_host a = (case given_host g of None \<Rightarrow> ''0.0.0.0'' | Some h \<Rightarrow> h) \<and>
      args_open a = given_open g \<and>
      (\<forall>addr. Server_bind addr \<in> set (fst (serve_main E argv)) \<longrightarrow>
         addr = (args_host a, args_port a)) \<and>
      (\<forall>u. Browser_open u \<in> set (fst (serve_main E argv)) \<longrightarrow> args_open a) \<and>
      (\<forall>cwd. os_getcwd E = Inr cwd \<and> os_chdir E cwd = None \<longrightarrow>
         hd (fst (serve_main E argv)) = Server_bind (args_host a, args_port a))) \<and>
   (given_port g = None \<and> given_host g = None \<and> \<not> given_open g \<longrightarrow>
      parse_args E argv = Inr \<lparr>args_port = 8000, args_host = ''0.0.0.0'', args_open = False\<rparr> \<and>
      (\<forall>addr. Server_bind addr \<in> set (fst (serve_main E argv)) \<longrightarrow>
         addr = (''0.0.0.0'', 8000)) \<and>
      (\<forall>u. Browser_open u \<notin> set (fst (serve_main E argv))) \<and>
      (\<forall>cwd. os_getcwd E = Inr cwd \<and> os_chdir E cwd = None \<longrightarrow>
         hd (fst (serve_main E argv)) = Server_bind (''0.0.0.0'', 8000))) \<and>
   arguments =
     [([''--port'', ''-p''], store_int), ([''--host''], store_str), ([''--open''], store_true)]"
proof -
  assume s: "argparse_scan E arguments argv = Inr g"
  let ?a = "\<lparr>args_port = (case given_port g of None \<Rightarrow> 8000 | Some p \<Rightarrow> p),
            args_host = (case given_host g of None \<Rightarrow> ''0.0.0.0'' | Some h \<Rightarrow> h),
            args_open = given_open g\<rparr>"
  from s have p: "parse_args E argv = Inr ?a" by (simp add: parse_args_def)
  then have m: "serve_main E argv = serve E ?a" by (simp add: serve_main_def)
  have b: "\<forall>addr. Server_bind addr \<in> set (fst (serve_main E argv)) \<longrightarrow>
         addr = (args_host ?a, args_port ?a)"
    unfolding m using serve_binds by blast
  have o: "\<forall>u. Browser_open u \<in> set (fst (serve_main E argv)) \<longrightarrow> args_open ?a"
    unfolding m using serve_browser by blast
  have h: "\<forall>cwd. os_getcwd E = Inr cwd \<and> os_chdir E cwd = None \<longrightarrow>
         hd (fst (serve_main E argv)) = Server_bind (args_host ?a, args_port ?a)"
    unfolding m using serve_starts by blast
  have 1: "\<exists>a. parse_args E argv = Inr a \<and> serve_main E argv = serve E a \<and>
      args_port a = (case given_port g of None \<Rightarrow> 8000 | Some p \<Rightarrow> p) \<and>
      args_host a = (case given_host g of None \<Rightarrow> ''0.0.0.0'' | Some h \<Rightarrow> h) \<and>
      args_open a = given_open g \<and>
      (\<forall>addr. Server_bind addr \<in> set (fst (serve_main E argv)) \<longrightarrow>
         addr = (args_host a, args_port a)) \<and>
      (\<forall>u. Browser_open u \<in> set (fst (serve_main E argv)) \<longrightarrow> args_open a) \<and>
      (\<forall>cwd. os_getcwd E = Inr cwd \<and> os_chdir E cwd = None \<longrightarrow>
         hd (fst (serve_main E argv)) = Server_bind (args_host a, args_port a))"
    using p m b o h by (intro exI[of _ ?a]) simp
  have 2: "given_port g = None \<and> given_host g = None \<and> \<not> given_open g \<longrightarrow>
      parse_args E argv = Inr \<lparr>args_port = 8000, args_host = ''0.0.0.0'', args_open = False\<rparr> \<and>
      (\<forall>addr. Server_bind addr \<in> set (fst (serve_main E argv)) \<longrightarrow>
         addr = (''0.0.0.0'', 8000)) \<and>
      (\<forall>u. Browser_open u \<notin> set (fst (serve_main E argv))) \<and>
      (\<forall>cwd. os_getcwd E = Inr cwd \<and> os_chdir E cwd = None \<longrightarrow>
         hd (fst (serve_main E argv)) = Server_bind (''0.0.0.0'', 8000))"
    using p b o h by auto
  have 3: "arguments =
     [([''--port'', ''-p''], store_int), ([''--host''], store_str), ([''--open''], store_true)]"
    by (simp add: arguments_def)
  show ?thesis by (intro conjI 1 2 3)
qed

theorem cli_defaults_witness:
  "argparse_scan demo_env arguments [] =
     Inr \<lparr>given_port = None, given_host = None, given_open = False\<rparr> \<and>
   parse_args demo_env [] =
     Inr \<lparr>args_port = 8000, args_host = ''0.0.0.0'', args_open = False\<rparr> \<and>
   serve_main demo_env [] =
     ([Server_bind (''0.0.0.0'', 8000),
       Server_print ''Serving /srv/anim at http://127.0.0.1:8000/ (press Ctrl-C to stop)'',
       Serve_forever, Server_print (CHR 0x0A # ''Shutting down''), Server_close], Returned) \<and>
   argparse_scan demo_env arguments [''-p'', ''9000'', ''--host'', ''127.0.0.1''] =
     Inr \<lparr>given_port = Some 9000, given_host = Some ''127.0.0.1'', given_open = False\<rparr> \<and>
   serve_main demo_env [''-p'', ''9000'', ''--host'', ''127.0.0.1''] =
     ([Server_bind (''127.0.0.1'', 9000),
       Server_print ''Serving /srv/anim at http://127.0.0.1:9000/ (press Ctrl-C to stop)'',
       Serve_forever, Server_print (CHR 0x0A # ''Shutting down''), Server_close], Returned)"
proof -
  from cli_defaults[OF demo_scan_none]
  have p: "parse_args demo_env [] =
     Inr \<lparr>args_port = 8000, args_host = ''0.0.0.0'', args_open = False\<rparr>"
    by simp
  have n: "serve_main demo_env [] =
     ([Server_bind (''0.0.0.0'', 8000),
       Server_print ''Serving /srv/anim at http://127.0.0.1:8000/ (press Ctrl-C to stop)'',
       Serve_forever, Server_print (CHR 0x0A # ''Shutting down''), Server_close], Returned)"
    by (simp add: serve_main_def p demo_serve url_8000)
  have q: "parse_args demo_env [''-p'', ''9000'', ''--host'', ''127.0.0.1''] =
     Inr \<lparr>args_port = 9000, args_host = ''127.0.0.1'', args_open = False\<rparr>"
    by (simp add: parse_args_def demo_scan_port)
  have m: "serve_main demo_env [''-p'', ''9000'', ''--host'', ''127.0.0.1''] =
     ([Server_bind (''127.0.0.1'', 9000),
       Server_print ''Serving /srv/anim at http://127.0.0.1:9000/ (press Ctrl-C to stop)'',
       Serve_forever, Server_print (CHR 0x0A # ''Shutting down''), Server_close], Returned)"
    by (simp add: serve_main_def q demo_serve url_9000)
  show ?thesis by (intro conjI demo_scan_none p n demo_scan_port m)
qed

end
